theory Spec2Isabelle
  imports Main "HOL-Library.AList" "HOL-Library.Multiset"
begin

section \<open>Data model of the quiz session (src/App.tsx)\<close>

text \<open>
  The component \<open>App\<close> keeps its state in React \<open>useState\<close> cells. The model collects the
  cells the quiz engine reads or writes in one record, \<open>State\<close>, and turns every handler
  into a function from the state of the render it closes over to the state after its
  updates are committed. A handler named as in the source is the handler of the latest
  render: the state it reads is the state it updates. A handler is a closure, though: the
  variables it reads (\<open>submitted\<close>, \<open>currentQIndex\<close>, \<open>questions\<close>, ...) are constants of the
  render that created it, while its updates go to the current state, and \<open>submitRef.current\<close>
  is replaced by an effect that runs after the next render only. The handlers and timer
  callbacks with the suffix \<open>From\<close> make this explicit: they take the render whose values
  they read and the state they update as separate arguments.

  The declarations of \<open>./types\<close> are not part of the source tree; the records below list the
  fields that \<open>App.tsx\<close> reads or writes. Field names that clash with Isabelle keywords or
  HOL constants carry a prefix (\<open>id\<close>, \<open>text\<close>, \<open>value\<close>).
\<close>

datatype View =
  LOGIN_SELECT | STUDENT_LOGIN | STUDENT_REGISTER | REGISTRATION_SUCCESS
  | ADMIN_LOGIN | STUDENT_LOBBY | ADMIN_DASHBOARD

datatype UserRole = STUDENT | ADMIN

datatype QuizStatus = DRAFT | PUBLISHED

record User =
  user_id :: string
  name :: string
  role :: UserRole

record QOption =
  option_id :: string
  option_text :: string

record Question =
  question_id :: string
  question_text :: string
  options :: "QOption list"
  correctAnswer :: string

text \<open>\<open>publishedAt\<close> is a millisecond timestamp or \<open>undefined\<close>.\<close>

record Quiz =
  quiz_id :: string
  title :: string
  durationMinutes :: int
  questionIds :: "string list"
  status :: QuizStatus
  publishedAt :: "int option"

record Answer =
  questionId :: string
  answer_value :: string

record Submission =
  quizId :: string
  studentId :: string
  sub_answers :: "Answer list"
  score :: int
  totalQuestions :: nat
  submittedAt :: int

record Feedback =
  selectedId :: string
  isCorrect :: bool

text \<open>
  \<open>answers\<close> is the object \<open>Record<string, string>\<close>: an association list with one entry per
  key, a new key appended at the end and an existing key overwritten in place
  (\<open>AList.update\<close>), which is the order \<open>Object.entries\<close> enumerates string keys in
  (keys that are array indices come first in JavaScript, in ascending order; no property
  below depends on the order of the entries).

  Two fields record effects that leave the component: \<open>submitCalls\<close> is the list of records
  passed to \<open>MockBackend.submitQuiz\<close> so far, \<open>pendingNext\<close> counts the
  \<open>setTimeout(handleNextQuestion, 1000)\<close> callbacks scheduled and not yet fired.
\<close>

record State =
  view :: View
  user :: "User option"
  error :: string
  activeQuiz :: "Quiz option"
  questions :: "Question list"
  currentQIndex :: nat
  answers :: "(string \<times> string) list"
  globalTimeLeft :: int
  questionTimeLeft :: int
  feedback :: "Feedback option"
  submitted :: bool
  result :: "int option"
  students :: "User list"
  submissions :: "Submission list"
  onlineCount :: int
  submitCalls :: "Submission list"
  pendingNext :: nat

text \<open>
  What a handler reads from outside the component when it runs: the clock (\<open>Date.now()\<close>)
  and the answers of the backend, whose code is not in the source tree.
\<close>

record Env =
  now :: int
  getActiveQuiz :: "Quiz option"
  getQuestions :: "Question list"
  getStudents :: "User list"
  getSubmissions :: "string \<Rightarrow> Submission list"

datatype error = TypeError

datatype Event = QUIZ_PUBLISHED | ONLINE_COUNT_UPDATE int | SUBMISSION_RECEIVED

section \<open>Scoring\<close>

text \<open>
  Modelled from the spec: \<open>MockBackend.calculateScore\<close> (services/mockBackend is not in the
  source tree). Section 4.1: for each question, look up an answer by question identifier;
  if present and its chosen option identifier equals the question's correct option
  identifier, increment the score.
\<close>

definition lookupAnswer :: "Answer list \<Rightarrow> string \<Rightarrow> Answer option" where
  "lookupAnswer as qid = find (\<lambda>a. questionId a = qid) as"

definition credit :: "Answer list \<Rightarrow> Question \<Rightarrow> int" where
  "credit as q =
     (case lookupAnswer as (question_id q) of
        None \<Rightarrow> 0
      | Some a \<Rightarrow> if answer_value a = correctAnswer q then 1 else 0)"

fun calculateScore :: "Question list \<Rightarrow> Answer list \<Rightarrow> int" where
  "calculateScore [] as = 0"
| "calculateScore (q # qs) as = credit as q + calculateScore qs as"

section \<open>Handlers\<close>

text \<open>\<open>loadActiveQuiz\<close>, lines 134-158. \<open>if (quiz.publishedAt)\<close> is false for \<open>undefined\<close> and for 0.\<close>

definition loadActiveQuiz :: "Env \<Rightarrow> State \<Rightarrow> State" where
  "loadActiveQuiz env s =
     (case getActiveQuiz env of
        None \<Rightarrow> s
      | Some quiz \<Rightarrow>
          let s1 = s\<lparr>activeQuiz := Some quiz, questions := take 10 (getQuestions env)\<rparr> in
          (case publishedAt quiz of
             None \<Rightarrow> s1
           | Some p \<Rightarrow>
               if p = 0 then s1
               else
                 let elapsed = (now env - p) div 1000;
                     remaining = 10 * 60 - elapsed
                 in s1\<lparr>currentQIndex := 0, answers := [], feedback := None,
                        submitted := False, questionTimeLeft := 60,
                        globalTimeLeft := (if remaining > 0 then remaining else 0)\<rparr>))"

text \<open>\<open>loadAdminData\<close>, lines 216-226.\<close>

definition loadAdminData :: "Env \<Rightarrow> State \<Rightarrow> State" where
  "loadAdminData env s =
     (let s1 = s\<lparr>students := getStudents env\<rparr> in
      case getActiveQuiz env of
        None \<Rightarrow> s1
      | Some quiz \<Rightarrow> s1\<lparr>submissions := getSubmissions env (quiz_id quiz)\<rparr>)"

text \<open>\<open>handleSubmitQuiz\<close>, lines 260-278.\<close>

definition entries :: "(string \<times> string) list \<Rightarrow> Answer list" where
  "entries m = map (\<lambda>(k, v). \<lparr>questionId = k, answer_value = v\<rparr>) m"

definition handleSubmitQuiz :: "Env \<Rightarrow> State \<Rightarrow> State" where
  "handleSubmitQuiz env s =
     (case user s of
        None \<Rightarrow> s
      | Some u \<Rightarrow>
          (case activeQuiz s of
             None \<Rightarrow> s
           | Some quiz \<Rightarrow>
               if submitted s then s
               else
                 let sc = calculateScore (questions s) (entries (answers s));
                     submission =
                       \<lparr>quizId = quiz_id quiz, studentId = user_id u,
                        sub_answers = entries (answers s), score = sc,
                        totalQuestions = length (questions s), submittedAt = now env\<rparr>
                 in s\<lparr>submitted := True, result := Some sc,
                       submitCalls := submitCalls s @ [submission]\<rparr>))"

text \<open>
  \<open>handleNextQuestion\<close>, lines 247-257. \<open>questions.length - 1\<close> is -1 for the empty list, so
  the comparison is made on integers.
\<close>

definition handleNextQuestion :: "Env \<Rightarrow> State \<Rightarrow> State" where
  "handleNextQuestion env s =
     (let s1 = s\<lparr>feedback := None, questionTimeLeft := 60\<rparr> in
      if int (currentQIndex s) < int (length (questions s)) - 1
      then s1\<lparr>currentQIndex := currentQIndex s + 1\<rparr>
      else handleSubmitQuiz env s1)"

text \<open>
  \<open>handleOptionClick\<close>, lines 229-245. With \<open>questions[currentQIndex]\<close> undefined, reading
  \<open>currentQ.correctAnswer\<close> throws before any state is set.
\<close>

definition handleOptionClick :: "string \<Rightarrow> string \<Rightarrow> State \<Rightarrow> error + State" where
  "handleOptionClick qid oid s =
     (if feedback s \<noteq> None then Inr s
      else if currentQIndex s < length (questions s) then
        let currentQ = questions s ! currentQIndex s;
            correct = (oid = correctAnswer currentQ)
        in Inr (s\<lparr>answers := AList.update qid oid (answers s),
                   feedback := Some \<lparr>selectedId = oid, isCorrect = correct\<rparr>,
                   pendingNext := pendingNext s + 1\<rparr>)
      else Inl TypeError)"

text \<open>
  The callback of \<open>setTimeout\<close> in \<open>handleOptionClick\<close>, when it fires and the question index
  and the question list are still those of the render of the click (no reload of the quiz
  in between); \<open>feedbackTimeoutFrom\<close> below is the callback in general.
\<close>

definition feedbackTimeout :: "Env \<Rightarrow> State \<Rightarrow> State" where
  "feedbackTimeout env s =
     (if pendingNext s = 0 then s
      else handleNextQuestion env (s\<lparr>pendingNext := pendingNext s - 1\<rparr>))"

section \<open>Timers\<close>

text \<open>
  The global timer, lines 99-113: the effect schedules the interval only under its guard,
  so a tick happens only where \<open>globalTimerActive\<close> holds.
\<close>

definition globalTimerActive :: "State \<Rightarrow> bool" where
  "globalTimerActive s \<longleftrightarrow>
     activeQuiz s \<noteq> None \<and> globalTimeLeft s > 0 \<and> \<not> submitted s \<and> view s = STUDENT_LOBBY"

definition globalTick :: "Env \<Rightarrow> State \<Rightarrow> State" where
  "globalTick env s =
     (if \<not> globalTimerActive s then s
      else if globalTimeLeft s \<le> 1 then (handleSubmitQuiz env s)\<lparr>globalTimeLeft := 0\<rparr>
      else s\<lparr>globalTimeLeft := globalTimeLeft s - 1\<rparr>)"

text \<open>The question timer, lines 116-131.\<close>

definition questionTimerActive :: "State \<Rightarrow> bool" where
  "questionTimerActive s \<longleftrightarrow>
     activeQuiz s \<noteq> None \<and> \<not> submitted s \<and> view s = STUDENT_LOBBY
     \<and> feedback s = None \<and> length (questions s) > 0"

definition questionTick :: "Env \<Rightarrow> State \<Rightarrow> State" where
  "questionTick env s =
     (if \<not> questionTimerActive s then s
      else if questionTimeLeft s \<le> 1 then (handleNextQuestion env s)\<lparr>questionTimeLeft := 60\<rparr>
      else s\<lparr>questionTimeLeft := questionTimeLeft s - 1\<rparr>)"

section \<open>Notifications, login and logout\<close>

text \<open>The handler passed to \<open>MockBackend.subscribeToEvents\<close>, lines 78-96.\<close>

definition hasRole :: "State \<Rightarrow> UserRole \<Rightarrow> bool" where
  "hasRole s r = (case user s of None \<Rightarrow> False | Some u \<Rightarrow> role u = r)"

fun onEvent :: "Env \<Rightarrow> Event \<Rightarrow> State \<Rightarrow> State" where
  "onEvent env QUIZ_PUBLISHED s = (if hasRole s STUDENT then loadActiveQuiz env s else s)"
| "onEvent env (ONLINE_COUNT_UPDATE n) s = s\<lparr>onlineCount := n\<rparr>"
| "onEvent env SUBMISSION_RECEIVED s = (if hasRole s ADMIN then loadAdminData env s else s)"

text \<open>
  \<open>handleStudentLogin\<close> and \<open>handleAdminLogin\<close>, lines 160-170 and 200-210; the argument is
  what the backend's login call gave: a user, or the message of the error it threw.
\<close>

fun handleStudentLogin :: "Env \<Rightarrow> string + User \<Rightarrow> State \<Rightarrow> State" where
  "handleStudentLogin env (Inl msg) s = s\<lparr>error := msg\<rparr>"
| "handleStudentLogin env (Inr u) s =
     (loadActiveQuiz env (s\<lparr>user := Some u, view := STUDENT_LOBBY\<rparr>))\<lparr>error := []\<rparr>"

fun handleAdminLogin :: "Env \<Rightarrow> string + User \<Rightarrow> State \<Rightarrow> State" where
  "handleAdminLogin env (Inl msg) s = s\<lparr>error := msg\<rparr>"
| "handleAdminLogin env (Inr u) s =
     (loadAdminData env (s\<lparr>user := Some u, view := ADMIN_DASHBOARD\<rparr>))\<lparr>error := []\<rparr>"

text \<open>
  The logout buttons: of the waiting screen and the admin dashboard (lines 456, 567), and
  of the result screen (line 471).
\<close>

definition logout :: "State \<Rightarrow> State" where
  "logout s = s\<lparr>user := None, view := LOGIN_SELECT\<rparr>"

definition logoutCompleted :: "State \<Rightarrow> State" where
  "logoutCompleted s =
     s\<lparr>user := None, view := LOGIN_SELECT, submitted := False, activeQuiz := None\<rparr>"

text \<open>
  Everything that can happen to the quiz state, as one step function. The registration
  form and the navigation buttons write only \<open>view\<close>, \<open>error\<close> and form fields that are not
  part of \<open>State\<close>; \<open>Navigate\<close> stands for them.
\<close>

datatype Action =
  OptionClick string string
  | FeedbackTimeout
  | GlobalTick
  | QuestionTick
  | Notify Event
  | StudentLogin "string + User"
  | AdminLogin "string + User"
  | Logout
  | LogoutCompleted
  | Navigate View

fun step :: "Env \<Rightarrow> Action \<Rightarrow> State \<Rightarrow> error + State" where
  "step env (OptionClick qid oid) s = handleOptionClick qid oid s"
| "step env FeedbackTimeout s = Inr (feedbackTimeout env s)"
| "step env GlobalTick s = Inr (globalTick env s)"
| "step env QuestionTick s = Inr (questionTick env s)"
| "step env (Notify e) s = Inr (onEvent env e s)"
| "step env (StudentLogin r) s = Inr (handleStudentLogin env r s)"
| "step env (AdminLogin r) s = Inr (handleAdminLogin env r s)"
| "step env Logout s = Inr (logout s)"
| "step env LogoutCompleted s = Inr (logoutCompleted s)"
| "step env (Navigate v) s = Inr (s\<lparr>view := v\<rparr>)"

section \<open>The student view\<close>

text \<open>
  What the component renders, lines 288-643, as far as the quiz is concerned. The quiz
  screen carries the current question and one button per option: the arguments its
  \<open>onClick\<close> passes to \<open>handleOptionClick\<close> and whether it is disabled.
\<close>

datatype Screen =
  OtherView View
  | WaitingForQuiz
  | QuizCompleted "int option" nat
  | LoadingQuestions
  | QuestionNotFound
  | QuizScreen Question "(string \<times> string \<times> bool) list"

definition render :: "State \<Rightarrow> Screen" where
  "render s =
     (if view s \<noteq> STUDENT_LOBBY then OtherView (view s)
      else if activeQuiz s = None then WaitingForQuiz
      else if submitted s then QuizCompleted (result s) (length (questions s))
      else if length (questions s) = 0 then LoadingQuestions
      else if currentQIndex s < length (questions s) then
        (let currentQ = questions s ! currentQIndex s in
         QuizScreen currentQ
           (map (\<lambda>opt. (question_id currentQ, option_id opt, feedback s \<noteq> None))
              (options currentQ)))
      else QuestionNotFound)"

text \<open>The clicks the rendered screen accepts: the enabled option buttons.\<close>

definition clickable :: "State \<Rightarrow> (string \<times> string) list" where
  "clickable s =
     (case render s of
        QuizScreen q bs \<Rightarrow> map (\<lambda>(qid, oid, d). (qid, oid)) (filter (\<lambda>(qid, oid, d). \<not> d) bs)
      | _ \<Rightarrow> [])"

section \<open>Handlers as closures of a render\<close>

text \<open>
  \<open>handleSubmitQuiz\<close> as created by the render \<open>r\<close> and run on the current state \<open>s\<close>: the
  guard and the record are made of \<open>r\<close>'s \<open>user\<close>, \<open>activeQuiz\<close>, \<open>submitted\<close>, \<open>answers\<close> and
  \<open>questions\<close> (line 261 reads the closure), the updates go to \<open>s\<close>.
\<close>

definition handleSubmitQuizFrom :: "Env \<Rightarrow> State \<Rightarrow> State \<Rightarrow> State" where
  "handleSubmitQuizFrom env r s =
     (case user r of
        None \<Rightarrow> s
      | Some u \<Rightarrow>
          (case activeQuiz r of
             None \<Rightarrow> s
           | Some quiz \<Rightarrow>
               if submitted r then s
               else
                 let sc = calculateScore (questions r) (entries (answers r));
                     submission =
                       \<lparr>quizId = quiz_id quiz, studentId = user_id u,
                        sub_answers = entries (answers r), score = sc,
                        totalQuestions = length (questions r), submittedAt = now env\<rparr>
                 in s\<lparr>submitted := True, result := Some sc,
                       submitCalls := submitCalls s @ [submission]\<rparr>))"

text \<open>
  \<open>handleNextQuestion\<close> as created by the render \<open>r\<close>, with \<open>submitRef.current\<close> holding the
  submit function of the render \<open>ref\<close>: the branch reads \<open>r\<close>'s index and question list, the
  increment \<open>prev => prev + 1\<close> reads the current index.
\<close>

definition handleNextQuestionFrom :: "Env \<Rightarrow> State \<Rightarrow> State \<Rightarrow> State \<Rightarrow> State" where
  "handleNextQuestionFrom env ref r s =
     (let s1 = s\<lparr>feedback := None, questionTimeLeft := 60\<rparr> in
      if int (currentQIndex r) < int (length (questions r)) - 1
      then s1\<lparr>currentQIndex := currentQIndex s + 1\<rparr>
      else handleSubmitQuizFrom env ref s1)"

definition feedbackTimeoutFrom :: "Env \<Rightarrow> State \<Rightarrow> State \<Rightarrow> State \<Rightarrow> State" where
  "feedbackTimeoutFrom env ref r s =
     (if pendingNext s = 0 then s
      else handleNextQuestionFrom env ref r (s\<lparr>pendingNext := pendingNext s - 1\<rparr>))"

text \<open>
  The interval callbacks scheduled by the effects of the render \<open>r\<close> (so under \<open>r\<close>'s guard),
  run on the current state: the updaters \<open>prev => ...\<close> read the current remaining time.
\<close>

definition globalTickFrom :: "Env \<Rightarrow> State \<Rightarrow> State \<Rightarrow> State \<Rightarrow> State" where
  "globalTickFrom env ref r s =
     (if \<not> globalTimerActive r then s
      else if globalTimeLeft s \<le> 1 then (handleSubmitQuizFrom env ref s)\<lparr>globalTimeLeft := 0\<rparr>
      else s\<lparr>globalTimeLeft := globalTimeLeft s - 1\<rparr>)"

definition questionTickFrom :: "Env \<Rightarrow> State \<Rightarrow> State \<Rightarrow> State \<Rightarrow> State" where
  "questionTickFrom env ref r s =
     (if \<not> questionTimerActive r then s
      else if questionTimeLeft s \<le> 1 then (handleNextQuestionFrom env ref r s)\<lparr>questionTimeLeft := 60\<rparr>
      else s\<lparr>questionTimeLeft := questionTimeLeft s - 1\<rparr>)"

section \<open>A session for the examples\<close>

text \<open>
  A daily quiz of ten questions published at a fixed instant, a student, and the student's
  session on the fourth question with three answers recorded. The backend serves eleven
  questions, of which the session takes the first ten.
\<close>

definition abcd :: "QOption list" where
  "abcd = [\<lparr>option_id = ''a'', option_text = ''first''\<rparr>, \<lparr>option_id = ''b'', option_text = ''second''\<rparr>,
           \<lparr>option_id = ''c'', option_text = ''third''\<rparr>, \<lparr>option_id = ''d'', option_text = ''fourth''\<rparr>]"

definition mkQuestion :: "string \<Rightarrow> string \<Rightarrow> Question" where
  "mkQuestion i c = \<lparr>question_id = i, question_text = ''?'', options = abcd, correctAnswer = c\<rparr>"

definition tenQuestions :: "Question list" where
  "tenQuestions =
     [mkQuestion ''q0'' ''a'', mkQuestion ''q1'' ''b'', mkQuestion ''q2'' ''a'', mkQuestion ''q3'' ''c'',
      mkQuestion ''q4'' ''d'', mkQuestion ''q5'' ''a'', mkQuestion ''q6'' ''b'', mkQuestion ''q7'' ''c'',
      mkQuestion ''q8'' ''d'', mkQuestion ''q9'' ''a'']"

definition dailyQuiz :: Quiz where
  "dailyQuiz = \<lparr>quiz_id = ''daily-quiz-2026-01-01'', title = ''Daily Quiz'', durationMinutes = 10,
      questionIds = map question_id tenQuestions, status = PUBLISHED, publishedAt = Some 1767225600000\<rparr>"

definition student :: User where
  "student = \<lparr>user_id = ''A01'', name = ''Ada'', role = STUDENT\<rparr>"

definition atQuestion3 :: State where
  "atQuestion3 = \<lparr>view = STUDENT_LOBBY, user = Some student, error = [], activeQuiz = Some dailyQuiz,
      questions = tenQuestions, currentQIndex = 3,
      answers = [(''q0'', ''a''), (''q1'', ''c''), (''q2'', ''a'')],
      globalTimeLeft = 475, questionTimeLeft = 1, feedback = None, submitted = False, result = None,
      students = [], submissions = [], onlineCount = 1, submitCalls = [], pendingNext = 0\<rparr>"

definition backendAt :: "int \<Rightarrow> Quiz \<Rightarrow> Env" where
  "backendAt t q = \<lparr>now = t, getActiveQuiz = Some q, getQuestions = tenQuestions @ [mkQuestion ''q10'' ''b''],
      getStudents = [student], getSubmissions = (\<lambda>i. [])\<rparr>"

definition feedbackOnQuestion3 :: State where
  "feedbackOnQuestion3 =
     atQuestion3\<lparr>answers := [(''q0'', ''a''), (''q1'', ''c''), (''q2'', ''a''), (''q3'', ''c'')],
       feedback := Some \<lparr>selectedId = ''c'', isCorrect = True\<rparr>, questionTimeLeft := 17,
       pendingNext := 1\<rparr>"

text \<open>The same session on its last question, with one second left on both timers.\<close>

definition lastSecond :: State where
  "lastSecond = atQuestion3\<lparr>currentQIndex := 9, globalTimeLeft := 1\<rparr>"

lemmas demo = abcd_def mkQuestion_def tenQuestions_def dailyQuiz_def student_def atQuestion3_def backendAt_def

section \<open>Properties of the scoring function\<close>

lemma credit_bounds: "0 \<le> credit as q \<and> credit as q \<le> 1"
  by (simp add: credit_def split: option.split)

lemma score_nonneg: "0 \<le> calculateScore qs as"
  using credit_bounds by (induction qs) (auto simp: add_nonneg_nonneg)

lemma score_le_length: "calculateScore qs as \<le> int (length qs)"
proof (induction qs)
  case Nil
  show ?case by simp
next
  case (Cons q qs)
  have "credit as q \<le> 1" using credit_bounds by blast
  with Cons show ?case by simp
qed

lemma score_no_answers: "calculateScore qs [] = 0"
  by (induction qs) (simp_all add: credit_def lookupAnswer_def)

lemma lookup_None: "lookupAnswer as k = None \<longleftrightarrow> k \<notin> questionId ` set as"
  by (auto simp: lookupAnswer_def find_None_iff)

lemma lookup_Some_distinct:
  "distinct (map questionId as) \<Longrightarrow>
     lookupAnswer as k = Some a \<longleftrightarrow> a \<in> set as \<and> questionId a = k"
  by (induction as) (auto simp: lookupAnswer_def)

lemma lookup_foreign:
  "lookupAnswer (filter (\<lambda>a. questionId a \<in> K) as) k =
     (if k \<in> K then lookupAnswer as k else None)"
  by (induction as) (auto simp: lookupAnswer_def)

text \<open>The score depends on the answers only through the lookups of the questions' identifiers.\<close>

lemma score_cong:
  "(\<And>q. q \<in> set qs \<Longrightarrow> lookupAnswer as (question_id q) = lookupAnswer bs (question_id q))
   \<Longrightarrow> calculateScore qs as = calculateScore qs bs"
  by (induction qs) (simp_all add: credit_def)

lemma score_ignores_foreign:
  "calculateScore qs (filter (\<lambda>a. questionId a \<in> question_id ` set qs) as) = calculateScore qs as"
  by (rule score_cong) (simp add: lookup_foreign)

lemma credit_unanswered: "question_id q \<notin> questionId ` set as \<Longrightarrow> credit as q = 0"
  using lookup_None [of as "question_id q"] by (simp add: credit_def)

lemma score_unanswered:
  "calculateScore (filter (\<lambda>q. question_id q \<in> questionId ` set as) qs) as = calculateScore qs as"
  by (induction qs) (simp_all add: credit_unanswered)

lemma lookup_perm:
  assumes "distinct (map questionId as)" and "mset as = mset bs"
  shows "lookupAnswer as k = lookupAnswer bs k"
proof -
  have s: "set as = set bs"
    using assms(2) by (rule mset_eq_setD)
  have "mset (map questionId as) = mset (map questionId bs)"
    using assms(2) by (metis mset_map)
  then have d: "distinct (map questionId bs)"
    using assms(1) by (metis mset_eq_imp_distinct_iff)
  show ?thesis
  proof (cases "lookupAnswer as k")
    case None
    then show ?thesis using s by (metis lookup_None)
  next
    case (Some a)
    then show ?thesis using s d assms(1) by (metis lookup_Some_distinct)
  qed
qed

lemma score_perm:
  "distinct (map questionId as) \<Longrightarrow> mset as = mset bs \<Longrightarrow>
     calculateScore qs as = calculateScore qs bs"
  by (rule score_cong) (rule lookup_perm)

text \<open>
  Claim C8. For every question list \<open>Q\<close> and every collection of answers \<open>A\<close> the score lies
  between 0 and the number of questions, and it is 0 for the empty collection. Unanswered
  questions earn nothing: dropping them from \<open>Q\<close> leaves the score as it is, so the score is at
  most the number of answered questions. Answers for identifiers that are not in \<open>Q\<close> are
  ignored: dropping them from \<open>A\<close> leaves the score as it is. The score of a collection with
  one answer per question identifier (the data model's collection of AnsweredPairs, and what
  \<open>Object.entries\<close> produces) is the same in every order of the collection.
\<close>

theorem calculateScore_contract:
  "0 \<le> calculateScore Q A \<and> calculateScore Q A \<le> int (length Q)
   \<and> calculateScore Q [] = 0
   \<and> calculateScore (filter (\<lambda>q. question_id q \<in> questionId ` set A) Q) A = calculateScore Q A
   \<and> calculateScore Q A \<le> int (length (filter (\<lambda>q. question_id q \<in> questionId ` set A) Q))
   \<and> calculateScore Q (filter (\<lambda>a. questionId a \<in> question_id ` set Q) A) = calculateScore Q A
   \<and> (distinct (map questionId A) \<and> mset B = mset A \<longrightarrow> calculateScore Q B = calculateScore Q A)"
proof -
  have "calculateScore Q A \<le> int (length (filter (\<lambda>q. question_id q \<in> questionId ` set A) Q))"
    using score_le_length [of "filter (\<lambda>q. question_id q \<in> questionId ` set A) Q" A]
    by (simp only: score_unanswered)
  moreover have "distinct (map questionId A) \<and> mset B = mset A \<longrightarrow>
      calculateScore Q B = calculateScore Q A"
    using score_perm [of A B Q] by auto
  ultimately show ?thesis
    by (simp only: score_nonneg score_le_length score_no_answers score_unanswered
        score_ignores_foreign simp_thms)
qed

theorem calculateScore_contract_witness:
  "distinct (map questionId
      [\<lparr>questionId = ''q1'', answer_value = ''b''\<rparr>, \<lparr>questionId = ''q9'', answer_value = ''c''\<rparr>,
       \<lparr>questionId = ''q2'', answer_value = ''d''\<rparr>])
   \<and> mset [\<lparr>questionId = ''q2'', answer_value = ''d''\<rparr>, \<lparr>questionId = ''q1'', answer_value = ''b''\<rparr>,
       \<lparr>questionId = ''q9'', answer_value = ''c''\<rparr>]
     = mset [\<lparr>questionId = ''q1'', answer_value = ''b''\<rparr>, \<lparr>questionId = ''q9'', answer_value = ''c''\<rparr>,
       \<lparr>questionId = ''q2'', answer_value = ''d''\<rparr>]
   \<and> calculateScore
       [\<lparr>question_id = ''q1'', question_text = ''first'', options = [], correctAnswer = ''b''\<rparr>,
        \<lparr>question_id = ''q2'', question_text = ''second'', options = [], correctAnswer = ''a''\<rparr>,
        \<lparr>question_id = ''q3'', question_text = ''third'', options = [], correctAnswer = ''c''\<rparr>]
       [\<lparr>questionId = ''q2'', answer_value = ''d''\<rparr>, \<lparr>questionId = ''q1'', answer_value = ''b''\<rparr>,
        \<lparr>questionId = ''q9'', answer_value = ''c''\<rparr>] = 1"
  using calculateScore_contract
    [of "[\<lparr>question_id = ''q1'', question_text = ''first'', options = [], correctAnswer = ''b''\<rparr>,
          \<lparr>question_id = ''q2'', question_text = ''second'', options = [], correctAnswer = ''a''\<rparr>,
          \<lparr>question_id = ''q3'', question_text = ''third'', options = [], correctAnswer = ''c''\<rparr>]"
        "[\<lparr>questionId = ''q1'', answer_value = ''b''\<rparr>, \<lparr>questionId = ''q9'', answer_value = ''c''\<rparr>,
          \<lparr>questionId = ''q2'', answer_value = ''d''\<rparr>]"
        "[\<lparr>questionId = ''q2'', answer_value = ''d''\<rparr>, \<lparr>questionId = ''q1'', answer_value = ''b''\<rparr>,
          \<lparr>questionId = ''q9'', answer_value = ''c''\<rparr>]"]
  by (simp add: credit_def lookupAnswer_def)

section \<open>Submission\<close>

lemma handleSubmitQuiz_submitted: "submitted s \<Longrightarrow> handleSubmitQuiz env s = s"
  by (simp add: handleSubmitQuiz_def split: option.split)

lemma handleSubmitQuiz_cases:
  "handleSubmitQuiz env s = s \<or> submitted (handleSubmitQuiz env s)"
  by (simp add: handleSubmitQuiz_def Let_def split: option.split)

lemma handleSubmitQuiz_idem: "handleSubmitQuiz env' (handleSubmitQuiz env s) = handleSubmitQuiz env s"
  by (simp add: handleSubmitQuiz_def Let_def split: option.split)

lemma handleSubmitQuiz_calls:
  "length (submitCalls (handleSubmitQuiz env s)) =
     (if user s \<noteq> None \<and> activeQuiz s \<noteq> None \<and> \<not> submitted s then length (submitCalls s) + 1 else length (submitCalls s))"
  by (simp add: handleSubmitQuiz_def Let_def split: option.split)

lemma globalTick_inactive: "\<not> globalTimerActive s \<Longrightarrow> globalTick env s = s"
  by (simp add: globalTick_def)

text \<open>
  A call made by a later render, which reads the state the first call committed, changes
  nothing; this is the case the guard \<open>submitted\<close> covers.
\<close>

lemma handleSubmitQuiz_after_commit:
  "handleSubmitQuiz env' (handleSubmitQuiz env s) = handleSubmitQuiz env s
   \<and> (submitted s \<longrightarrow> handleSubmitQuiz env s = s \<and> globalTick env s = s)
   \<and> length (submitCalls (handleSubmitQuiz env' (handleSubmitQuiz env s))) \<le> length (submitCalls s) + 1
   \<and> (user s \<noteq> None \<and> activeQuiz s \<noteq> None \<and> \<not> submitted s \<longrightarrow>
        length (submitCalls (handleSubmitQuiz env' (handleSubmitQuiz env s))) = length (submitCalls s) + 1)"
proof -
  have "submitted s \<longrightarrow> globalTick env s = s"
    by (simp add: globalTick_inactive globalTimerActive_def)
  then show ?thesis
    by (simp add: handleSubmitQuiz_idem handleSubmitQuiz_submitted handleSubmitQuiz_calls)
qed

text \<open>The closures of the latest render are the handlers named as in the source.\<close>

lemma handleSubmitQuizFrom_self: "handleSubmitQuizFrom env s s = handleSubmitQuiz env s"
  by (simp add: handleSubmitQuizFrom_def handleSubmitQuiz_def)

lemma handleNextQuestionFrom_self: "handleNextQuestionFrom env s s s = handleNextQuestion env s"
  by (simp add: handleNextQuestionFrom_def handleNextQuestion_def Let_def handleSubmitQuizFrom_def
      handleSubmitQuiz_def split: option.split)

lemma globalTickFrom_self: "globalTickFrom env s s s = globalTick env s"
  by (simp add: globalTickFrom_def globalTick_def handleSubmitQuizFrom_self)

lemma questionTickFrom_self: "questionTickFrom env s s s = questionTick env s"
  by (simp add: questionTickFrom_def questionTick_def handleNextQuestionFrom_self)

text \<open>
  Whatever render created the callback, the advance clears the feedback, stores 60 and
  keeps the answers.
\<close>

lemma handleSubmitQuizFrom_keeps:
  "answers (handleSubmitQuizFrom env ref s) = answers s
   \<and> feedback (handleSubmitQuizFrom env ref s) = feedback s
   \<and> questionTimeLeft (handleSubmitQuizFrom env ref s) = questionTimeLeft s
   \<and> pendingNext (handleSubmitQuizFrom env ref s) = pendingNext s"
  by (simp add: handleSubmitQuizFrom_def Let_def split: option.split)

lemma handleNextQuestionFrom_reset:
  "feedback (handleNextQuestionFrom env ref r s) = None
   \<and> questionTimeLeft (handleNextQuestionFrom env ref r s) = 60
   \<and> answers (handleNextQuestionFrom env ref r s) = answers s"
  by (simp add: handleNextQuestionFrom_def Let_def handleSubmitQuizFrom_keeps)

lemma feedbackTimeoutFrom_reset:
  "feedbackTimeoutFrom env ref r s = s
   \<or> (feedback (feedbackTimeoutFrom env ref r s) = None
       \<and> questionTimeLeft (feedbackTimeoutFrom env ref r s) = 60)"
  by (simp add: feedbackTimeoutFrom_def handleNextQuestionFrom_reset)

lemma feedbackTimeoutFrom_self: "feedbackTimeoutFrom env s s s = feedbackTimeout env s"
  by (simp add: feedbackTimeoutFrom_def feedbackTimeout_def handleNextQuestionFrom_def
      handleNextQuestion_def handleSubmitQuizFrom_def handleSubmitQuiz_def Let_def
      split: option.split)

text \<open>Two calls of the submit function of one render that passes the guard hand over two records.\<close>

lemma handleSubmitQuizFrom_twice:
  "user r = Some u \<Longrightarrow> activeQuiz r = Some quiz \<Longrightarrow> \<not> submitted r \<Longrightarrow>
   length (submitCalls (handleSubmitQuizFrom env' r (handleSubmitQuizFrom env r s)))
     = length (submitCalls s) + 2"
  by (simp add: handleSubmitQuizFrom_def Let_def)

text \<open>
  Claim C1. The claim is that finalizing is idempotent: two calls of \<open>handleSubmitQuiz\<close> in
  succession produce exactly one SubmissionRecord, and the second call is a no-op. The
  code does not keep it for two calls made before the next render. \<open>submitted\<close> is a
  constant of the closure, and \<open>submitRef.current\<close> still holds the same closure at the
  second call, so the guard passes twice. On the session on its last question with one
  second left on both timers, not yet submitted: calling the submit function of that
  render twice passes two records for the same quiz to \<open>MockBackend.submitQuiz\<close>, and so do
  the global timer's and the question timer's callbacks of that render when they fire one
  after the other, both for the same student and quiz.
\<close>

theorem finalize_twice_in_one_render:
  "user lastSecond = Some student \<and> activeQuiz lastSecond = Some dailyQuiz
   \<and> \<not> submitted lastSecond \<and> submitCalls lastSecond = []
   \<and> globalTimerActive lastSecond \<and> questionTimerActive lastSecond
   \<and> globalTimeLeft lastSecond = 1 \<and> questionTimeLeft lastSecond = 1
   \<and> currentQIndex lastSecond = 9 \<and> length (questions lastSecond) = 10
   \<and> map quizId (submitCalls (handleSubmitQuizFrom (backendAt 1767226200000 dailyQuiz) lastSecond
        (handleSubmitQuizFrom (backendAt 1767226200000 dailyQuiz) lastSecond lastSecond)))
      = [''daily-quiz-2026-01-01'', ''daily-quiz-2026-01-01'']
   \<and> map studentId (submitCalls (questionTickFrom (backendAt 1767226200000 dailyQuiz) lastSecond lastSecond
        (globalTickFrom (backendAt 1767226200000 dailyQuiz) lastSecond lastSecond lastSecond)))
      = [''A01'', ''A01'']
   \<and> map quizId (submitCalls (questionTickFrom (backendAt 1767226200000 dailyQuiz) lastSecond lastSecond
        (globalTickFrom (backendAt 1767226200000 dailyQuiz) lastSecond lastSecond lastSecond)))
      = [''daily-quiz-2026-01-01'', ''daily-quiz-2026-01-01'']"
  by (simp add: lastSecond_def demo globalTimerActive_def questionTimerActive_def
      handleSubmitQuizFrom_def handleNextQuestionFrom_def globalTickFrom_def questionTickFrom_def Let_def)

section \<open>Loading the active quiz\<close>

lemma loadActiveQuiz_timed:
  "getActiveQuiz env = Some quiz \<Longrightarrow> publishedAt quiz = Some p \<Longrightarrow> p \<noteq> 0 \<Longrightarrow>
   loadActiveQuiz env s =
     s\<lparr>activeQuiz := Some quiz, questions := take 10 (getQuestions env), currentQIndex := 0,
       answers := [], feedback := None, submitted := False, questionTimeLeft := 60,
       globalTimeLeft := max 0 (600 - (now env - p) div 1000)\<rparr>"
  by (simp add: loadActiveQuiz_def Let_def max_def)

text \<open>
  Claim C2, as amended. Whenever the active quiz is loaded and carries a publish timestamp
  (present and not 0), the remaining global time becomes
  \<open>600 - floor((now - publishedAt) / 1000)\<close>, clamped to a minimum of 0, whatever the state
  before the load and whatever the quiz's \<open>durationMinutes\<close>: the limit of ten minutes is a
  constant of \<open>loadActiveQuiz\<close>. A load 125000 ms after publication gives 475 seconds.
\<close>

theorem loadActiveQuiz_remaining:
  "getActiveQuiz env = Some quiz \<Longrightarrow> publishedAt quiz = Some p \<Longrightarrow> p \<noteq> 0 \<Longrightarrow>
   globalTimeLeft (loadActiveQuiz env s) = max 0 (600 - (now env - p) div 1000)
   \<and> (now env = p + 125000 \<longrightarrow> globalTimeLeft (loadActiveQuiz env s) = 475)"
  by (simp add: loadActiveQuiz_timed)

theorem loadActiveQuiz_remaining_witness:
  "getActiveQuiz (backendAt (1767225600000 + 125000) dailyQuiz) = Some dailyQuiz
   \<and> publishedAt dailyQuiz = Some 1767225600000 \<and> (1767225600000 :: int) \<noteq> 0
   \<and> globalTimeLeft (loadActiveQuiz (backendAt (1767225600000 + 125000) dailyQuiz) atQuestion3) = 475"
proof -
  have a: "getActiveQuiz (backendAt (1767225600000 + 125000) dailyQuiz) = Some dailyQuiz"
    by (simp add: backendAt_def)
  have b: "publishedAt dailyQuiz = Some 1767225600000" by (simp add: dailyQuiz_def)
  have c: "(1767225600000 :: int) \<noteq> 0" by simp
  have d: "now (backendAt (1767225600000 + 125000) dailyQuiz) = 1767225600000 + 125000"
    by (simp add: backendAt_def)
  from loadActiveQuiz_remaining [OF a b c, of atQuestion3] d a b c show ?thesis by blast
qed

text \<open>
  The claim as stated, with the quiz's own duration, fails for a quiz of five minutes loaded
  125000 ms after publication: the session gets 475 seconds, not 300 - 125 = 175.
\<close>

theorem loadActiveQuiz_duration_counterexample:
  "getActiveQuiz (backendAt (1767225600000 + 125000) (dailyQuiz\<lparr>durationMinutes := 5\<rparr>))
     = Some (dailyQuiz\<lparr>durationMinutes := 5\<rparr>)
   \<and> publishedAt (dailyQuiz\<lparr>durationMinutes := 5\<rparr>) = Some 1767225600000
   \<and> globalTimeLeft (loadActiveQuiz (backendAt (1767225600000 + 125000) (dailyQuiz\<lparr>durationMinutes := 5\<rparr>)) atQuestion3) = 475
   \<and> max 0 (durationMinutes (dailyQuiz\<lparr>durationMinutes := 5\<rparr>) * 60
        - ((1767225600000 + 125000) - 1767225600000) div 1000) = (175 :: int)"
  by (simp add: backendAt_def dailyQuiz_def loadActiveQuiz_def Let_def)

text \<open>
  Claim C5, as amended. A "quiz published" notification is not idempotent. For a logged-in
  student, whenever the backend returns an active quiz with a publish timestamp (present
  and not 0), the session is reset: question index 0, no answers, no feedback, not
  submitted, question timer 60, global time recomputed, whether or not the quiz is the
  one in progress. The notification leaves the state as it is only when no student is
  logged in or when the backend has no active quiz; for a quiz without a timestamp it
  replaces the active quiz and the question list and nothing else.
\<close>

theorem published_resets:
  "(hasRole s STUDENT \<and> getActiveQuiz env = Some quiz \<and> publishedAt quiz = Some p \<and> p \<noteq> 0 \<longrightarrow>
      onEvent env QUIZ_PUBLISHED s =
        s\<lparr>activeQuiz := Some quiz, questions := take 10 (getQuestions env), currentQIndex := 0,
          answers := [], feedback := None, submitted := False, questionTimeLeft := 60,
          globalTimeLeft := max 0 (600 - (now env - p) div 1000)\<rparr>)
   \<and> (\<not> hasRole s STUDENT \<or> getActiveQuiz env = None \<longrightarrow> onEvent env QUIZ_PUBLISHED s = s)
   \<and> (hasRole s STUDENT \<and> getActiveQuiz env = Some quiz \<and> (publishedAt quiz = None \<or> publishedAt quiz = Some 0) \<longrightarrow>
      onEvent env QUIZ_PUBLISHED s = s\<lparr>activeQuiz := Some quiz, questions := take 10 (getQuestions env)\<rparr>)"
  by (auto simp: loadActiveQuiz_timed) (simp_all add: loadActiveQuiz_def)

theorem published_resets_witness:
  "hasRole atQuestion3 STUDENT \<and> getActiveQuiz (backendAt 1767225725000 dailyQuiz) = Some dailyQuiz
   \<and> publishedAt dailyQuiz = Some 1767225600000 \<and> (1767225600000 :: int) \<noteq> 0
   \<and> onEvent (backendAt 1767225725000 dailyQuiz) QUIZ_PUBLISHED atQuestion3 =
       atQuestion3\<lparr>activeQuiz := Some dailyQuiz, questions := tenQuestions, currentQIndex := 0,
          answers := [], feedback := None, submitted := False, questionTimeLeft := 60,
          globalTimeLeft := 475\<rparr>
   \<and> \<not> hasRole (atQuestion3\<lparr>user := None\<rparr>) STUDENT
   \<and> onEvent (backendAt 1767225725000 dailyQuiz) QUIZ_PUBLISHED (atQuestion3\<lparr>user := None\<rparr>)
       = atQuestion3\<lparr>user := None\<rparr>
   \<and> getActiveQuiz (backendAt 1767225725000 (dailyQuiz\<lparr>publishedAt := None\<rparr>))
       = Some (dailyQuiz\<lparr>publishedAt := None\<rparr>)
   \<and> publishedAt (dailyQuiz\<lparr>publishedAt := None\<rparr>) = None
   \<and> onEvent (backendAt 1767225725000 (dailyQuiz\<lparr>publishedAt := None\<rparr>)) QUIZ_PUBLISHED atQuestion3
       = atQuestion3\<lparr>activeQuiz := Some (dailyQuiz\<lparr>publishedAt := None\<rparr>)\<rparr>"
  using published_resets [of atQuestion3 "backendAt 1767225725000 dailyQuiz" dailyQuiz 1767225600000]
    published_resets [of "atQuestion3\<lparr>user := None\<rparr>" "backendAt 1767225725000 dailyQuiz" dailyQuiz 1767225600000]
    published_resets [of atQuestion3 "backendAt 1767225725000 (dailyQuiz\<lparr>publishedAt := None\<rparr>)"
      "dailyQuiz\<lparr>publishedAt := None\<rparr>" 1767225600000]
  by (simp add: demo hasRole_def)

text \<open>
  The claim as stated fails on a session in progress on the fourth question: observing the
  notification again for the same quiz puts the session back on question 0 with no answers.
\<close>

theorem published_resets_counterexample:
  "hasRole atQuestion3 STUDENT
   \<and> activeQuiz atQuestion3 = getActiveQuiz (backendAt 1767225725000 dailyQuiz)
   \<and> \<not> submitted atQuestion3
   \<and> currentQIndex atQuestion3 = 3
   \<and> answers atQuestion3 = [(''q0'', ''a''), (''q1'', ''c''), (''q2'', ''a'')]
   \<and> currentQIndex (onEvent (backendAt 1767225725000 dailyQuiz) QUIZ_PUBLISHED atQuestion3) = 0
   \<and> answers (onEvent (backendAt 1767225725000 dailyQuiz) QUIZ_PUBLISHED atQuestion3) = []"
  by (simp add: demo hasRole_def loadActiveQuiz_def Let_def)

section \<open>The global timer\<close>

lemma fold_globalTick_inactive: "\<not> globalTimerActive s \<Longrightarrow> fold globalTick envs s = s"
  by (induction envs) (simp_all add: globalTick_inactive)

lemma globalTick_calls:
  "length (submitCalls (fold globalTick envs s)) \<le> length (submitCalls s) + 1"
proof (induction envs arbitrary: s)
  case Nil
  show ?case by simp
next
  case (Cons e envs)
  show ?case
  proof (cases "globalTimerActive s \<and> globalTimeLeft s \<le> 1")
    case True
    then have "\<not> globalTimerActive (globalTick e s)"
      by (simp add: globalTick_def globalTimerActive_def)
    then have "fold globalTick envs (globalTick e s) = globalTick e s"
      by (rule fold_globalTick_inactive)
    moreover have "length (submitCalls (globalTick e s)) \<le> length (submitCalls s) + 1"
      using True by (simp add: globalTick_def handleSubmitQuiz_calls)
    ultimately show ?thesis by simp
  next
    case False
    then have "submitCalls (globalTick e s) = submitCalls s"
      by (auto simp: globalTick_def)
    then show ?thesis using Cons [of "globalTick e s"] by simp
  qed
qed

text \<open>
  Claim C6. When a tick would take the remaining global time to 0 or below (it is at most 1
  on a running timer), the tick sets it to 0 and calls the submit function once. The timer
  is then not scheduled any more, so every later tick is a no-op. No run of ticks hands
  more than one record to the backend, and the expiry hands exactly one when a user is
  logged in.
\<close>

theorem globalTimer_expiry:
  "globalTimerActive s \<Longrightarrow> globalTimeLeft s \<le> 1 \<Longrightarrow>
   globalTick env s = (handleSubmitQuiz env s)\<lparr>globalTimeLeft := 0\<rparr>
   \<and> globalTimeLeft (globalTick env s) = 0
   \<and> \<not> globalTimerActive (globalTick env s)
   \<and> fold globalTick envs (globalTick env s) = globalTick env s
   \<and> length (submitCalls (fold globalTick envs (globalTick env s))) \<le> length (submitCalls s) + 1
   \<and> (user s \<noteq> None \<longrightarrow>
        submitted (globalTick env s)
        \<and> length (submitCalls (fold globalTick envs (globalTick env s))) = length (submitCalls s) + 1)"
proof -
  assume a: "globalTimerActive s" and b: "globalTimeLeft s \<le> 1"
  have t: "globalTick env s = (handleSubmitQuiz env s)\<lparr>globalTimeLeft := 0\<rparr>"
    using a b by (simp add: globalTick_def)
  have n: "\<not> globalTimerActive (globalTick env s)"
    by (simp add: t globalTimerActive_def)
  have f: "fold globalTick envs (globalTick env s) = globalTick env s"
    using n by (rule fold_globalTick_inactive)
  have c: "length (submitCalls (globalTick env s)) \<le> length (submitCalls s) + 1"
    by (simp add: t handleSubmitQuiz_calls)
  have u: "user s \<noteq> None \<longrightarrow> submitted (globalTick env s)
      \<and> length (submitCalls (globalTick env s)) = length (submitCalls s) + 1"
    using a by (auto simp: t handleSubmitQuiz_calls globalTimerActive_def handleSubmitQuiz_def Let_def)
  show ?thesis using t n f c u by simp
qed

theorem globalTimer_expiry_witness:
  "globalTimerActive (atQuestion3\<lparr>globalTimeLeft := 1\<rparr>) \<and> globalTimeLeft (atQuestion3\<lparr>globalTimeLeft := 1\<rparr>) \<le> 1
   \<and> user (atQuestion3\<lparr>globalTimeLeft := 1\<rparr>) \<noteq> None
   \<and> globalTimeLeft (globalTick (backendAt 1767226200000 dailyQuiz) (atQuestion3\<lparr>globalTimeLeft := 1\<rparr>)) = 0
   \<and> submitted (globalTick (backendAt 1767226200000 dailyQuiz) (atQuestion3\<lparr>globalTimeLeft := 1\<rparr>))
   \<and> length (submitCalls (fold globalTick
        [backendAt 1767226201000 dailyQuiz, backendAt 1767226202000 dailyQuiz]
        (globalTick (backendAt 1767226200000 dailyQuiz) (atQuestion3\<lparr>globalTimeLeft := 1\<rparr>))))
      = length (submitCalls (atQuestion3\<lparr>globalTimeLeft := 1\<rparr>)) + 1
   \<and> submitCalls (atQuestion3\<lparr>globalTimeLeft := 1\<rparr>) = []"
proof -
  have a: "globalTimerActive (atQuestion3\<lparr>globalTimeLeft := 1\<rparr>)"
    by (simp add: globalTimerActive_def atQuestion3_def)
  have b: "globalTimeLeft (atQuestion3\<lparr>globalTimeLeft := 1\<rparr>) \<le> 1" by simp
  have c: "user (atQuestion3\<lparr>globalTimeLeft := 1\<rparr>) \<noteq> None" by (simp add: atQuestion3_def)
  have d: "submitCalls (atQuestion3\<lparr>globalTimeLeft := 1\<rparr>) = []" by (simp add: atQuestion3_def)
  from globalTimer_expiry [OF a b, of "backendAt 1767226200000 dailyQuiz"
      "[backendAt 1767226201000 dailyQuiz, backendAt 1767226202000 dailyQuiz]"] a b c d
  show ?thesis by blast
qed

text \<open>
  The expiry above is that of a running timer. A session loaded ten minutes or more after
  publication starts with 0 seconds; its global timer is never scheduled and the load
  does not submit.
\<close>

lemma late_load_not_scheduled:
  "getActiveQuiz env = Some quiz \<Longrightarrow> publishedAt quiz = Some p \<Longrightarrow> p \<noteq> 0 \<Longrightarrow>
   600000 \<le> now env - p \<Longrightarrow>
   globalTimeLeft (loadActiveQuiz env s) = 0 \<and> \<not> globalTimerActive (loadActiveQuiz env s)
   \<and> \<not> submitted (loadActiveQuiz env s)"
proof -
  assume a: "getActiveQuiz env = Some quiz" "publishedAt quiz = Some p" "p \<noteq> 0"
    and l: "600000 \<le> now env - p"
  have "600 \<le> (now env - p) div 1000" using l by linarith
  then have "max 0 (600 - (now env - p) div 1000) = 0" by simp
  then show ?thesis
    by (simp add: loadActiveQuiz_timed [OF a] globalTimerActive_def)
qed

section \<open>The question timer and the advance rule\<close>

lemma handleNextQuestion_advance:
  "int (currentQIndex s) < int (length (questions s)) - 1 \<Longrightarrow>
   handleNextQuestion env s = s\<lparr>feedback := None, questionTimeLeft := 60, currentQIndex := currentQIndex s + 1\<rparr>"
  by (simp add: handleNextQuestion_def Let_def)

lemma handleNextQuestion_last:
  "\<not> int (currentQIndex s) < int (length (questions s)) - 1 \<Longrightarrow>
   handleNextQuestion env s = handleSubmitQuiz env (s\<lparr>feedback := None, questionTimeLeft := 60\<rparr>)"
  by (simp add: handleNextQuestion_def Let_def)

lemma handleSubmitQuiz_keeps:
  "answers (handleSubmitQuiz env s) = answers s \<and> feedback (handleSubmitQuiz env s) = feedback s
   \<and> currentQIndex (handleSubmitQuiz env s) = currentQIndex s
   \<and> questionTimeLeft (handleSubmitQuiz env s) = questionTimeLeft s
   \<and> globalTimeLeft (handleSubmitQuiz env s) = globalTimeLeft s
   \<and> questions (handleSubmitQuiz env s) = questions s"
  by (simp add: handleSubmitQuiz_def Let_def split: option.split)

lemma handleSubmitQuiz_fresh:
  "user s = Some u \<Longrightarrow> activeQuiz s = Some quiz \<Longrightarrow> \<not> submitted s \<Longrightarrow>
   handleSubmitQuiz env s =
     s\<lparr>submitted := True, result := Some (calculateScore (questions s) (entries (answers s))),
       submitCalls := submitCalls s @
         [\<lparr>quizId = quiz_id quiz, studentId = user_id u, sub_answers = entries (answers s),
           score = calculateScore (questions s) (entries (answers s)),
           totalQuestions = length (questions s), submittedAt = now env\<rparr>]\<rparr>"
  by (simp add: handleSubmitQuiz_def Let_def)

lemma handleNextQuestion_keeps:
  "answers (handleNextQuestion env s) = answers s \<and> feedback (handleNextQuestion env s) = None
   \<and> questionTimeLeft (handleNextQuestion env s) = 60"
  by (simp add: handleNextQuestion_def Let_def handleSubmitQuiz_keeps)

text \<open>
  Claim C4. When the question timer expires on the question of index \<open>i\<close> (a tick of the
  running timer with at most 1 second left), \<open>handleNextQuestion\<close> is applied directly: the
  answers stay as they are, so no entry is recorded for the question, no feedback is set,
  and the question timer is back at 60. If \<open>i\<close> is below the last index the index becomes
  \<open>i + 1\<close> and nothing is submitted; if \<open>i\<close> is the last index the session of a logged-in
  user becomes submitted, with one record handed to the backend. In particular, with ten
  questions, index 3 and no answer for the fourth question's identifier, the index becomes 4
  and there is still no answer for that identifier.
\<close>

theorem questionTimer_expiry:
  "questionTimerActive s \<Longrightarrow> questionTimeLeft s \<le> 1 \<Longrightarrow>
   questionTick env s = (handleNextQuestion env s)\<lparr>questionTimeLeft := 60\<rparr>
   \<and> answers (questionTick env s) = answers s
   \<and> feedback (questionTick env s) = None
   \<and> questionTimeLeft (questionTick env s) = 60
   \<and> (int (currentQIndex s) < int (length (questions s)) - 1 \<longrightarrow>
        currentQIndex (questionTick env s) = currentQIndex s + 1
        \<and> \<not> submitted (questionTick env s)
        \<and> submitCalls (questionTick env s) = submitCalls s)
   \<and> (currentQIndex s + 1 = length (questions s) \<and> user s \<noteq> None \<longrightarrow>
        submitted (questionTick env s)
        \<and> currentQIndex (questionTick env s) = currentQIndex s
        \<and> length (submitCalls (questionTick env s)) = length (submitCalls s) + 1)
   \<and> (length (questions s) = 10 \<and> currentQIndex s = 3
        \<and> map_of (answers s) (question_id (questions s ! 3)) = None \<longrightarrow>
        currentQIndex (questionTick env s) = 4
        \<and> map_of (answers (questionTick env s)) (question_id (questions s ! 3)) = None)"
proof -
  assume a: "questionTimerActive s" and b: "questionTimeLeft s \<le> 1"
  have t: "questionTick env s = (handleNextQuestion env s)\<lparr>questionTimeLeft := 60\<rparr>"
    using a b by (simp add: questionTick_def)
  have k: "answers (questionTick env s) = answers s \<and> feedback (questionTick env s) = None
      \<and> questionTimeLeft (questionTick env s) = 60"
    by (simp add: t handleNextQuestion_keeps)
  have adv: "int (currentQIndex s) < int (length (questions s)) - 1 \<longrightarrow>
        currentQIndex (questionTick env s) = currentQIndex s + 1
        \<and> \<not> submitted (questionTick env s)
        \<and> submitCalls (questionTick env s) = submitCalls s"
    using a by (simp add: t handleNextQuestion_advance questionTimerActive_def)
  have fin: "currentQIndex s + 1 = length (questions s) \<and> user s \<noteq> None \<longrightarrow>
        submitted (questionTick env s)
        \<and> currentQIndex (questionTick env s) = currentQIndex s
        \<and> length (submitCalls (questionTick env s)) = length (submitCalls s) + 1"
  proof (intro impI)
    assume h: "currentQIndex s + 1 = length (questions s) \<and> user s \<noteq> None"
    then have l: "\<not> int (currentQIndex s) < int (length (questions s)) - 1" by linarith
    from h a obtain u quiz where "user s = Some u" "activeQuiz s = Some quiz" "\<not> submitted s"
      by (auto simp: questionTimerActive_def)
    then show "submitted (questionTick env s)
        \<and> currentQIndex (questionTick env s) = currentQIndex s
        \<and> length (submitCalls (questionTick env s)) = length (submitCalls s) + 1"
      by (simp add: t handleNextQuestion_last [OF l] handleSubmitQuiz_fresh)
  qed
  have ex: "length (questions s) = 10 \<and> currentQIndex s = 3
        \<and> map_of (answers s) (question_id (questions s ! 3)) = None \<longrightarrow>
        currentQIndex (questionTick env s) = 4
        \<and> map_of (answers (questionTick env s)) (question_id (questions s ! 3)) = None"
    using adv k by simp
  show ?thesis using t k adv fin ex by blast
qed

theorem questionTimer_expiry_witness:
  "questionTimerActive atQuestion3 \<and> questionTimeLeft atQuestion3 \<le> 1
   \<and> length (questions atQuestion3) = 10 \<and> currentQIndex atQuestion3 = 3
   \<and> question_id (questions atQuestion3 ! 3) = ''q3''
   \<and> map_of (answers atQuestion3) (question_id (questions atQuestion3 ! 3)) = None
   \<and> currentQIndex (questionTick (backendAt 1767225725000 dailyQuiz) atQuestion3) = 4
   \<and> map_of (answers (questionTick (backendAt 1767225725000 dailyQuiz) atQuestion3))
        (question_id (questions atQuestion3 ! 3)) = None
   \<and> feedback (questionTick (backendAt 1767225725000 dailyQuiz) atQuestion3) = None
   \<and> questionTimeLeft (questionTick (backendAt 1767225725000 dailyQuiz) atQuestion3) = 60
   \<and> questionTimerActive (atQuestion3\<lparr>currentQIndex := 9\<rparr>)
   \<and> questionTimeLeft (atQuestion3\<lparr>currentQIndex := 9\<rparr>) \<le> 1
   \<and> currentQIndex (atQuestion3\<lparr>currentQIndex := 9\<rparr>) + 1 = length (questions (atQuestion3\<lparr>currentQIndex := 9\<rparr>))
   \<and> user (atQuestion3\<lparr>currentQIndex := 9\<rparr>) \<noteq> None
   \<and> submitted (questionTick (backendAt 1767225725000 dailyQuiz) (atQuestion3\<lparr>currentQIndex := 9\<rparr>))"
proof -
  have a: "questionTimerActive atQuestion3"
    by (simp add: questionTimerActive_def demo)
  have b: "questionTimeLeft atQuestion3 \<le> 1"
    by (simp add: demo)
  have c: "length (questions atQuestion3) = 10 \<and> currentQIndex atQuestion3 = 3
     \<and> question_id (questions atQuestion3 ! 3) = ''q3''
     \<and> map_of (answers atQuestion3) (question_id (questions atQuestion3 ! 3)) = None"
    by (simp add: demo)
  have a': "questionTimerActive (atQuestion3\<lparr>currentQIndex := 9\<rparr>)"
    by (simp add: questionTimerActive_def demo)
  have b': "questionTimeLeft (atQuestion3\<lparr>currentQIndex := 9\<rparr>) \<le> 1"
    by (simp add: demo)
  have c': "currentQIndex (atQuestion3\<lparr>currentQIndex := 9\<rparr>) + 1
      = length (questions (atQuestion3\<lparr>currentQIndex := 9\<rparr>))
     \<and> user (atQuestion3\<lparr>currentQIndex := 9\<rparr>) \<noteq> None"
    by (simp add: demo)
  from questionTimer_expiry [OF a b, of "backendAt 1767225725000 dailyQuiz"]
    questionTimer_expiry [OF a' b', of "backendAt 1767225725000 dailyQuiz"] a b c a' b' c'
  show ?thesis by blast
qed

lemma questionTick_inactive: "\<not> questionTimerActive s \<Longrightarrow> questionTick env s = s"
  by (simp add: questionTick_def)

lemma loadActiveQuiz_reset:
  "currentQIndex (loadActiveQuiz env s) \<noteq> currentQIndex s
     \<or> feedback (loadActiveQuiz env s) \<noteq> feedback s
   \<Longrightarrow> questionTimeLeft (loadActiveQuiz env s) = 60"
  by (auto simp: loadActiveQuiz_def Let_def split: option.splits if_splits)

lemma handleOptionClick_reset:
  "handleOptionClick qid oid s = Inr s' \<Longrightarrow>
     currentQIndex s' = currentQIndex s \<and> (feedback s \<noteq> None \<longrightarrow> feedback s' = feedback s)"
  by (auto simp: handleOptionClick_def Let_def split: if_splits)

lemma feedbackTimeout_reset:
  "feedbackTimeout env s = s \<or> questionTimeLeft (feedbackTimeout env s) = 60"
  by (simp add: feedbackTimeout_def handleNextQuestion_keeps)

lemma globalTick_keeps:
  "currentQIndex (globalTick env s) = currentQIndex s \<and> feedback (globalTick env s) = feedback s"
  by (simp add: globalTick_def handleSubmitQuiz_keeps)

lemma questionTick_reset:
  "questionTimeLeft (questionTick env s) = 60
   \<or> currentQIndex (questionTick env s) = currentQIndex s \<and> feedback (questionTick env s) = feedback s"
  by (simp add: questionTick_def)

lemma onEvent_reset:
  "currentQIndex (onEvent env e s) \<noteq> currentQIndex s \<or> feedback (onEvent env e s) \<noteq> feedback s
   \<Longrightarrow> questionTimeLeft (onEvent env e s) = 60"
  by (cases e) (auto simp: loadActiveQuiz_reset loadAdminData_def Let_def split: option.splits if_splits)

lemma handleStudentLogin_reset:
  "currentQIndex (handleStudentLogin env r s) \<noteq> currentQIndex s
     \<or> feedback (handleStudentLogin env r s) \<noteq> feedback s
   \<Longrightarrow> questionTimeLeft (handleStudentLogin env r s) = 60"
  using loadActiveQuiz_reset [of env "s\<lparr>user := Some u, view := STUDENT_LOBBY\<rparr>" for u]
  by (cases r) auto

lemma handleAdminLogin_keeps:
  "currentQIndex (handleAdminLogin env r s) = currentQIndex s
   \<and> feedback (handleAdminLogin env r s) = feedback s"
  by (cases r) (auto simp: loadAdminData_def Let_def split: option.splits)

lemma step_reset:
  assumes "step env a s = Inr s'"
    and "currentQIndex s' \<noteq> currentQIndex s \<or> (feedback s \<noteq> None \<and> feedback s' = None)"
  shows "questionTimeLeft s' = 60"
proof (cases a)
  case (OptionClick qid oid)
  then show ?thesis using assms handleOptionClick_reset [of qid oid s s'] by auto
next
  case FeedbackTimeout
  then show ?thesis using assms feedbackTimeout_reset [of env s] by auto
next
  case GlobalTick
  then show ?thesis using assms globalTick_keeps [of env s] by auto
next
  case QuestionTick
  then show ?thesis using assms questionTick_reset [of env s] by auto
next
  case (Notify e)
  then show ?thesis using assms onEvent_reset [of env e s] by auto
next
  case (StudentLogin r)
  then show ?thesis using assms handleStudentLogin_reset [of env r s] by auto
next
  case (AdminLogin r)
  then show ?thesis using assms handleAdminLogin_keeps [of env r s] by auto
next
  case Logout
  then show ?thesis using assms by (auto simp: logout_def)
next
  case LogoutCompleted
  then show ?thesis using assms by (auto simp: logoutCompleted_def)
next
  case (Navigate v)
  then show ?thesis using assms by auto
qed

text \<open>
  Claim C7. A tick of the question timer changes the state only while a quiz is active, the
  session is not submitted, the student view is shown, no feedback is set and the question
  list is not empty; in particular it is suspended while feedback is visible. While it
  runs with more than 1 second left, a tick takes off one second. Whenever a step of the
  component changes the current question index or clears the feedback, the question timer
  is at 60 afterwards, whatever it was before.
\<close>

theorem questionTimer_suspended_and_reset:
  "(questionTick env s \<noteq> s \<longrightarrow>
      activeQuiz s \<noteq> None \<and> \<not> submitted s \<and> view s = STUDENT_LOBBY
      \<and> feedback s = None \<and> questions s \<noteq> [])
   \<and> (feedback s \<noteq> None \<longrightarrow> questionTick env s = s)
   \<and> (questionTimerActive s \<and> 1 < questionTimeLeft s \<longrightarrow>
        questionTick env s = s\<lparr>questionTimeLeft := questionTimeLeft s - 1\<rparr>)
   \<and> (step env a s = Inr s'
        \<and> (currentQIndex s' \<noteq> currentQIndex s \<or> (feedback s \<noteq> None \<and> feedback s' = None)) \<longrightarrow>
        questionTimeLeft s' = 60)"
proof -
  have 1: "questionTick env s \<noteq> s \<longrightarrow>
      activeQuiz s \<noteq> None \<and> \<not> submitted s \<and> view s = STUDENT_LOBBY
      \<and> feedback s = None \<and> questions s \<noteq> []"
  proof (intro impI)
    assume "questionTick env s \<noteq> s"
    then have "questionTimerActive s"
      using questionTick_inactive [of s env] by blast
    then show "activeQuiz s \<noteq> None \<and> \<not> submitted s \<and> view s = STUDENT_LOBBY
      \<and> feedback s = None \<and> questions s \<noteq> []"
      by (simp add: questionTimerActive_def)
  qed
  have 2: "feedback s \<noteq> None \<longrightarrow> questionTick env s = s"
    by (simp add: questionTick_def questionTimerActive_def)
  have 3: "questionTimerActive s \<and> 1 < questionTimeLeft s \<longrightarrow>
        questionTick env s = s\<lparr>questionTimeLeft := questionTimeLeft s - 1\<rparr>"
    by (simp add: questionTick_def)
  have 4: "step env a s = Inr s'
        \<and> (currentQIndex s' \<noteq> currentQIndex s \<or> (feedback s \<noteq> None \<and> feedback s' = None)) \<longrightarrow>
        questionTimeLeft s' = 60"
  proof (intro impI)
    assume h: "step env a s = Inr s'
        \<and> (currentQIndex s' \<noteq> currentQIndex s \<or> (feedback s \<noteq> None \<and> feedback s' = None))"
    show "questionTimeLeft s' = 60"
      by (rule step_reset [OF conjunct1 [OF h] conjunct2 [OF h]])
  qed
  show ?thesis by (rule conjI [OF 1 conjI [OF 2 conjI [OF 3 4]]])
qed

theorem questionTimer_suspended_and_reset_witness:
  "feedback feedbackOnQuestion3 \<noteq> None
   \<and> questionTimeLeft feedbackOnQuestion3 = 17
   \<and> questionTick (backendAt 1767225725000 dailyQuiz) feedbackOnQuestion3 = feedbackOnQuestion3
   \<and> step (backendAt 1767225725000 dailyQuiz) FeedbackTimeout feedbackOnQuestion3 =
        Inr (feedbackOnQuestion3\<lparr>pendingNext := 0, feedback := None, questionTimeLeft := 60,
              currentQIndex := 4\<rparr>)
   \<and> questionTimeLeft (feedbackOnQuestion3\<lparr>pendingNext := 0, feedback := None, questionTimeLeft := 60,
              currentQIndex := 4\<rparr>) = 60
   \<and> questionTimerActive (atQuestion3\<lparr>questionTimeLeft := 42\<rparr>)
   \<and> questionTick (backendAt 1767225725000 dailyQuiz) (atQuestion3\<lparr>questionTimeLeft := 42\<rparr>)
       = atQuestion3\<lparr>questionTimeLeft := 41\<rparr>"
proof -
  have a: "feedback feedbackOnQuestion3 \<noteq> None \<and> questionTimeLeft feedbackOnQuestion3 = 17"
    by (simp add: feedbackOnQuestion3_def)
  have b: "step (backendAt 1767225725000 dailyQuiz) FeedbackTimeout feedbackOnQuestion3 =
        Inr (feedbackOnQuestion3\<lparr>pendingNext := 0, feedback := None, questionTimeLeft := 60,
              currentQIndex := 4\<rparr>)"
    by (simp add: feedbackOnQuestion3_def feedbackTimeout_def handleNextQuestion_def Let_def demo)
  have c: "currentQIndex (feedbackOnQuestion3\<lparr>pendingNext := 0, feedback := None,
      questionTimeLeft := 60, currentQIndex := 4\<rparr>) \<noteq> currentQIndex feedbackOnQuestion3"
    by (simp add: feedbackOnQuestion3_def demo)
  have d: "questionTimerActive (atQuestion3\<lparr>questionTimeLeft := 42\<rparr>)
      \<and> 1 < questionTimeLeft (atQuestion3\<lparr>questionTimeLeft := 42\<rparr>)"
    by (simp add: questionTimerActive_def demo)
  have e: "atQuestion3\<lparr>questionTimeLeft := 42, questionTimeLeft := 42 - 1\<rparr> = atQuestion3\<lparr>questionTimeLeft := 41\<rparr>"
    by simp
  from questionTimer_suspended_and_reset [of "backendAt 1767225725000 dailyQuiz" feedbackOnQuestion3
      FeedbackTimeout "feedbackOnQuestion3\<lparr>pendingNext := 0, feedback := None, questionTimeLeft := 60,
              currentQIndex := 4\<rparr>"]
    questionTimer_suspended_and_reset [of "backendAt 1767225725000 dailyQuiz"
      "atQuestion3\<lparr>questionTimeLeft := 42\<rparr>" FeedbackTimeout "atQuestion3"]
    a b c d e
  show ?thesis by simp
qed

section \<open>One answer per question identifier\<close>

text \<open>
  No step of the component gives the answer object two entries with the same key, so the
  collection that \<open>handleSubmitQuiz\<close> passes to \<open>calculateScore\<close> has one answer per question
  identifier, and by \<open>score_perm\<close> the score does not depend on the order in which
  \<open>Object.entries\<close> lists them.
\<close>

lemma entries_distinct: "distinct (map questionId (entries m)) = distinct (map fst m)"
proof -
  have "map questionId (entries m) = map fst m"
    by (induction m) (auto simp: entries_def)
  then show ?thesis by simp
qed

lemma loadActiveQuiz_distinct:
  "distinct (map fst (answers s)) \<Longrightarrow> distinct (map fst (answers (loadActiveQuiz env s)))"
  by (auto simp: loadActiveQuiz_def Let_def split: option.splits)

lemma step_distinct_answers:
  assumes "step env a s = Inr s'" and "distinct (map fst (answers s))"
  shows "distinct (map fst (answers s'))"
proof (cases a)
  case (OptionClick qid oid)
  then show ?thesis using assms
    by (auto simp: handleOptionClick_def Let_def distinct_update split: if_splits)
next
  case FeedbackTimeout
  then show ?thesis using assms handleNextQuestion_keeps [of env "s\<lparr>pendingNext := pendingNext s - 1\<rparr>"]
    by (auto simp: feedbackTimeout_def)
next
  case GlobalTick
  then show ?thesis using assms by (auto simp: globalTick_def handleSubmitQuiz_keeps)
next
  case QuestionTick
  then show ?thesis using assms handleNextQuestion_keeps [of env s]
    by (auto simp: questionTick_def)
next
  case (Notify e)
  then show ?thesis using assms
    by (cases e) (auto simp: loadActiveQuiz_distinct loadAdminData_def Let_def split: option.splits)
next
  case (StudentLogin r)
  then show ?thesis using assms
    by (cases r) (auto simp: loadActiveQuiz_distinct)
next
  case (AdminLogin r)
  then show ?thesis using assms
    by (cases r) (auto simp: loadAdminData_def Let_def split: option.splits)
next
  case Logout
  then show ?thesis using assms by (auto simp: logout_def)
next
  case LogoutCompleted
  then show ?thesis using assms by (auto simp: logoutCompleted_def)
next
  case (Navigate v)
  then show ?thesis using assms by auto
qed

section \<open>Selecting an option\<close>


lemma handleOptionClick_accepts:
  "feedback s = None \<Longrightarrow> currentQIndex s < length (questions s) \<Longrightarrow>
   handleOptionClick qid oid s =
     Inr (s\<lparr>answers := AList.update qid oid (answers s),
            feedback := Some \<lparr>selectedId = oid,
              isCorrect = (oid = correctAnswer (questions s ! currentQIndex s))\<rparr>,
            pendingNext := pendingNext s + 1\<rparr>)"
  by (simp add: handleOptionClick_def Let_def)






text \<open>
  Claim C10. For every pair of strings \<open>qid\<close>, \<open>oid\<close>, when no feedback is set (and the current
  question exists) \<open>handleOptionClick\<close> records \<open>oid\<close> under \<open>qid\<close>, whether or not \<open>qid\<close> is the
  current question's identifier and whether or not \<open>oid\<close> is one of its options; the stored
  correctness is the equality of \<open>oid\<close> with the current question's correct answer alone.
\<close>

theorem handleOptionClick_unvalidated:
  "feedback s = None \<Longrightarrow> currentQIndex s < length (questions s) \<Longrightarrow>
   handleOptionClick qid oid s =
     Inr (s\<lparr>answers := AList.update qid oid (answers s),
            feedback := Some \<lparr>selectedId = oid,
              isCorrect = (oid = correctAnswer (questions s ! currentQIndex s))\<rparr>,
            pendingNext := pendingNext s + 1\<rparr>)
   \<and> map_of (AList.update qid oid (answers s)) qid = Some oid"
  by (simp add: handleOptionClick_accepts update_conv')

theorem handleOptionClick_unvalidated_witness:
  "feedback (atQuestion3\<lparr>questions := [mkQuestion ''q0'' ''e''], currentQIndex := 0, answers := []\<rparr>) = None
   \<and> currentQIndex (atQuestion3\<lparr>questions := [mkQuestion ''q0'' ''e''], currentQIndex := 0, answers := []\<rparr>)
       < length (questions (atQuestion3\<lparr>questions := [mkQuestion ''q0'' ''e''], currentQIndex := 0, answers := []\<rparr>))
   \<and> ''zz'' \<noteq> question_id (mkQuestion ''q0'' ''e'')
   \<and> ''e'' \<notin> set (map option_id (options (mkQuestion ''q0'' ''e'')))
   \<and> handleOptionClick ''zz'' ''e''
        (atQuestion3\<lparr>questions := [mkQuestion ''q0'' ''e''], currentQIndex := 0, answers := []\<rparr>) =
       Inr (atQuestion3\<lparr>questions := [mkQuestion ''q0'' ''e''], currentQIndex := 0,
              answers := [(''zz'', ''e'')],
              feedback := Some \<lparr>selectedId = ''e'', isCorrect = True\<rparr>, pendingNext := 1\<rparr>)"
proof -
  have a: "feedback (atQuestion3\<lparr>questions := [mkQuestion ''q0'' ''e''], currentQIndex := 0, answers := []\<rparr>) = None"
    by (simp add: demo)
  have b: "currentQIndex (atQuestion3\<lparr>questions := [mkQuestion ''q0'' ''e''], currentQIndex := 0, answers := []\<rparr>)
       < length (questions (atQuestion3\<lparr>questions := [mkQuestion ''q0'' ''e''], currentQIndex := 0, answers := []\<rparr>))"
    by simp
  have c: "''zz'' \<noteq> question_id (mkQuestion ''q0'' ''e'')
     \<and> ''e'' \<notin> set (map option_id (options (mkQuestion ''q0'' ''e'')))"
    by (simp add: demo)
  from handleOptionClick_unvalidated [OF a b, of "''zz''" "''e''"] a b c
  show ?thesis by (simp add: demo)
qed

section \<open>The render guards\<close>

lemma render_QuizScreen:
  "render s = QuizScreen q bs \<Longrightarrow>
     currentQIndex s < length (questions s) \<and> q = questions s ! currentQIndex s
     \<and> view s = STUDENT_LOBBY \<and> activeQuiz s \<noteq> None \<and> \<not> submitted s"
  by (auto simp: render_def Let_def split: if_splits)

text \<open>
  Claim C9. In every state whose question list is empty or whose current question index
  is out of range, the quiz screen is not rendered and no option can be clicked; where
  the quiz screen would be due (student view, active quiz, not submitted) the loading
  screen is shown for the empty list and the error screen for the index out of range.
\<close>

theorem render_guards:
  "questions s = [] \<or> \<not> currentQIndex s < length (questions s) \<Longrightarrow>
   (\<forall>q bs. render s \<noteq> QuizScreen q bs)
   \<and> clickable s = []
   \<and> (view s = STUDENT_LOBBY \<and> activeQuiz s \<noteq> None \<and> \<not> submitted s \<longrightarrow>
        render s = (if questions s = [] then LoadingQuestions else QuestionNotFound))"
proof -
  assume a: "questions s = [] \<or> \<not> currentQIndex s < length (questions s)"
  have n: "\<forall>q bs. render s \<noteq> QuizScreen q bs"
    using a render_QuizScreen [of s] by fastforce
  then have c: "clickable s = []"
    by (simp add: clickable_def split: Screen.split)
  have r: "view s = STUDENT_LOBBY \<and> activeQuiz s \<noteq> None \<and> \<not> submitted s \<longrightarrow>
        render s = (if questions s = [] then LoadingQuestions else QuestionNotFound)"
    using a by (auto simp: render_def)
  show ?thesis using n c r by blast
qed

theorem render_guards_witness:
  "questions (atQuestion3\<lparr>questions := []\<rparr>) = []
   \<and> render (atQuestion3\<lparr>questions := []\<rparr>) = LoadingQuestions
   \<and> clickable (atQuestion3\<lparr>questions := []\<rparr>) = []
   \<and> \<not> currentQIndex (atQuestion3\<lparr>currentQIndex := 10\<rparr>) < length (questions (atQuestion3\<lparr>currentQIndex := 10\<rparr>))
   \<and> render (atQuestion3\<lparr>currentQIndex := 10\<rparr>) = QuestionNotFound
   \<and> clickable (atQuestion3\<lparr>currentQIndex := 10\<rparr>) = []"
proof -
  have a: "questions (atQuestion3\<lparr>questions := []\<rparr>) = []" by simp
  have b: "\<not> currentQIndex (atQuestion3\<lparr>currentQIndex := 10\<rparr>)
      < length (questions (atQuestion3\<lparr>currentQIndex := 10\<rparr>))"
    by (simp add: demo)
  have c: "view atQuestion3 = STUDENT_LOBBY \<and> activeQuiz atQuestion3 \<noteq> None \<and> \<not> submitted atQuestion3
      \<and> questions atQuestion3 \<noteq> []"
    by (simp add: demo)
  from render_guards [of "atQuestion3\<lparr>questions := []\<rparr>", OF disjI1 [OF a]]
    render_guards [of "atQuestion3\<lparr>currentQIndex := 10\<rparr>", OF disjI2 [OF b]] a b c
  show ?thesis by simp
qed

end
